theory Spec2Isabelle
  imports Main
begin

section \<open>Values of the declarative API\<close>

text \<open>
  The two stacks of the repository (\<open>AWSstack\<close> and \<open>Ec2LoggingStack\<close>) are constructors
  that declare resources through a provisioning framework. A construct is declared with an
  identifier inside its stack and a literal object of parameters; a parameter that holds
  another construct holds, in this model, the identifier of that construct.
\<close>

type_synonym ref = string

datatype SubnetType = PUBLIC | PRIVATE_WITH_EGRESS | PRIVATE_ISOLATED

datatype RemovalPolicy = DESTROY | RETAIN | SNAPSHOT

datatype Duration = seconds nat | days nat

datatype InstanceClass = BURSTABLE3 | T3

datatype InstanceSize = MICRO | SMALL

datatype InstanceType = InstanceType_of InstanceClass InstanceSize | InstanceType string

datatype MachineImage = latestAmazonLinux | latestAmazonLinux2

datatype MysqlEngineVersion = VER_8_0

datatype DatabaseInstanceEngine = mysql MysqlEngineVersion

datatype Credentials = fromSecret ref

datatype ServicePrincipal = ServicePrincipal string

datatype ManagedPolicy = fromAwsManagedPolicyName string

datatype Runtime = PYTHON_3_9

text \<open>\<open>path.join(__dirname, '..', 'lambda')\<close>: the directory of the module stays symbolic.\<close>

datatype PathPart = dirname | part string

datatype Code = fromAsset "PathPart list"

datatype LogDestination = LambdaDestination ref

text \<open>Attributes of a construct that are resolved after deployment.\<close>

datatype Attribute =
    loadBalancerDnsName ref
  | dbInstanceEndpointAddress ref
  | bucketArn ref
  | bucketName ref

text \<open>A template string such as \<open>`${bucket.bucketArn}/*`\<close>.\<close>

datatype TemplatePart = attr Attribute | lit string

subsection \<open>Security rules\<close>

text \<open>
  The peer of an ingress rule is the address range of all IPv4 addresses
  (\<open>Peer.anyIpv4()\<close>, the range \<open>0.0.0.0/0\<close>) or a security group, which the source
  passes as the peer directly.
\<close>

datatype Peer = anyIpv4 | SecurityGroupPeer ref

datatype Port = tcp nat

record IngressRule =
  peer :: Peer
  connection :: Port
  rule_description :: string

fun is_cidr :: "Peer \<Rightarrow> bool" where
  "is_cidr anyIpv4 = True"
| "is_cidr (SecurityGroupPeer g) = False"

subsection \<open>Log retention and filter patterns\<close>

text \<open>
  Modelled from the spec: the framework's enumeration \<open>RetentionDays\<close> is not part of the
  repository. The spec reads the value the logging stack configures, \<open>ONE_WEEK\<close>, as a
  retention of 7 days; the other members are the neighbouring periods of the enumeration.
\<close>

datatype RetentionDays = ONE_DAY | THREE_DAYS | FIVE_DAYS | ONE_WEEK | TWO_WEEKS | ONE_MONTH

fun retentionInDays :: "RetentionDays \<Rightarrow> nat" where
  "retentionInDays ONE_DAY = 1"
| "retentionInDays THREE_DAYS = 3"
| "retentionInDays FIVE_DAYS = 5"
| "retentionInDays ONE_WEEK = 7"
| "retentionInDays TWO_WEEKS = 14"
| "retentionInDays ONE_MONTH = 30"

text \<open>
  Modelled from the spec: the framework's \<open>FilterPattern\<close> is not part of the repository.
  \<open>allEvents\<close> is the spec's "match all events"; a pattern of terms matches an event whose
  message contains all (or one) of the terms.
\<close>

datatype FilterPattern = allEvents | allTerms "string list" | anyTerm "string list"

record LogEvent =
  timestamp :: nat
  message :: string

fun starts_with :: "string \<Rightarrow> string \<Rightarrow> bool" where
  "starts_with [] s = True"
| "starts_with (p # ps) [] = False"
| "starts_with (p # ps) (c # cs) = (p = c \<and> starts_with ps cs)"

fun contains :: "string \<Rightarrow> string \<Rightarrow> bool" where
  "contains t [] = (t = [])"
| "contains t (c # cs) = (starts_with t (c # cs) \<or> contains t cs)"

fun matches :: "FilterPattern \<Rightarrow> LogEvent \<Rightarrow> bool" where
  "matches allEvents e = True"
| "matches (allTerms ts) e = list_all (\<lambda>t. contains t (message e)) ts"
| "matches (anyTerm ts) e = list_ex (\<lambda>t. contains t (message e)) ts"

subsection \<open>The bootstrap script\<close>

text \<open>
  Modelled from the spec: the framework's \<open>UserData\<close> (\<open>forLinux\<close>, \<open>addCommands\<close> and the
  rendering of the script) is not part of the repository. Following the spec, a bootstrap
  script is an ordered sequence of shell command lines, and \<open>addCommands\<close> appends the given
  commands with no interpretation of them. The rendering follows the framework: the blob
  of a script made by \<open>forLinux()\<close> starts with the shebang line \<open>#!/bin/bash\<close>, the command
  lines follow in their order, and two consecutive lines are separated by one line break.
\<close>

record UserData =
  lines :: "string list"

definition forLinux :: UserData where
  "forLinux = \<lparr>lines = []\<rparr>"

definition addCommands :: "UserData \<Rightarrow> string list \<Rightarrow> UserData" where
  "addCommands ud commands = ud\<lparr>lines := lines ud @ commands\<rparr>"

definition newline :: char where
  "newline = CHR 0x0A"

fun join :: "string list \<Rightarrow> string" where
  "join [] = []"
| "join [l] = l"
| "join (l # m # ls) = l @ newline # join (m # ls)"

definition shebang :: string where
  "shebang = ''#!/bin/bash''"

definition render :: "UserData \<Rightarrow> string" where
  "render ud = join (shebang # lines ud)"

text \<open>
  Splitting a blob on line boundaries, as \<open>blob.split('\n')\<close> does: a blob with \<open>n\<close> line
  breaks has \<open>n + 1\<close> lines, so the empty blob has one (empty) line.
\<close>

fun split_lines :: "string \<Rightarrow> string list" where
  "split_lines [] = [[]]"
| "split_lines (c # cs) =
     (if c = newline then [] # split_lines cs
      else (case split_lines cs of [] \<Rightarrow> [[c]] | l # ls \<Rightarrow> (c # l) # ls))"

section \<open>Constructs\<close>

text \<open>
  One record per kind of construct, with the parameters the source passes. A parameter that
  no call of the source passes is absent from the record; a parameter that only some calls
  pass is optional. State that a method call of the source changes after construction (the
  ingress rules of a security group, the policies of a role, the removal policy of a log
  group) is a field of the record, empty when the construct is created.
\<close>

record SubnetConfiguration =
  cidrMask :: "nat option"
  name :: string
  subnetType :: SubnetType

record Vpc =
  cidr :: "string option"
  maxAzs :: nat
  natGateways :: "nat option"
  subnetConfiguration :: "SubnetConfiguration list"

record SecurityGroup =
  sg_vpc :: ref
  allowAllOutbound :: bool
  sg_description :: "string option"
  ingressRules :: "IngressRule list"

record SecretStringGenerator =
  secretStringTemplate :: string
  generateStringKey :: string
  excludePunctuation :: bool
  includeSpace :: bool

record Secret =
  generateSecretString :: SecretStringGenerator

record SubnetGroup =
  sng_vpc :: ref
  sng_description :: string
  subnetGroupName :: string
  sng_vpcSubnets :: SubnetType
  sng_removalPolicy :: RemovalPolicy

record DatabaseInstance =
  engine :: DatabaseInstanceEngine
  db_instanceType :: InstanceType
  db_vpc :: ref
  db_vpcSubnets :: SubnetType
  credentials :: Credentials
  multiAz :: bool
  allocatedStorage :: nat
  maxAllocatedStorage :: nat
  securityGroups :: "ref list"
  subnetGroup :: ref
  publiclyAccessible :: bool
  db_removalPolicy :: RemovalPolicy
  deletionProtection :: bool
  databaseName :: string

record ApplicationLoadBalancer =
  alb_vpc :: ref
  internetFacing :: bool
  alb_securityGroup :: ref
  loadBalancerName :: string

record PolicyStatement =
  actions :: "string list"
  resources :: "TemplatePart list list"

record Role =
  assumedBy :: ServicePrincipal
  role_description :: "string option"
  managedPolicies :: "ManagedPolicy list"
  policyStatements :: "PolicyStatement list"

record AutoScalingGroup =
  asg_vpc :: ref
  asg_instanceType :: InstanceType
  asg_machineImage :: MachineImage
  asg_role :: ref
  asg_securityGroup :: ref
  desiredCapacity :: nat
  minCapacity :: nat
  maxCapacity :: nat
  asg_vpcSubnets :: SubnetType
  asg_userData :: UserData

record ApplicationListener =
  loadBalancer :: ref
  listener_port :: nat
  listener_open :: bool

record HealthCheck =
  path :: string
  interval :: Duration

record ApplicationTargetGroup =
  tg_listener :: ref
  tg_port :: nat
  targets :: "ref list"
  healthCheck :: HealthCheck

record CfnOutput =
  out_description :: string
  out_value :: Attribute

record LogGroup =
  logGroupName :: string
  retention :: RetentionDays
  lg_removalPolicy :: "RemovalPolicy option"

record Instance =
  inst_vpc :: ref
  inst_instanceType :: InstanceType
  inst_machineImage :: MachineImage
  inst_role :: ref
  inst_vpcSubnets :: SubnetType
  associatePublicIpAddress :: bool
  inst_userData :: UserData
  inst_securityGroup :: ref

record LifecycleRule =
  expiration :: Duration
  noncurrentVersionExpiration :: Duration

record Bucket =
  versioned :: bool
  bucket_removalPolicy :: RemovalPolicy
  autoDeleteObjects :: bool
  lifecycleRules :: "LifecycleRule list"

record LambdaFunction =
  runtime :: Runtime
  handler :: string
  code :: Code
  timeout :: Duration
  fn_role :: ref
  environment :: "(string \<times> Attribute) list"

record SubscriptionFilter =
  sf_logGroup :: ref
  destination :: LogDestination
  filterPattern :: FilterPattern

text \<open>
  \<open>bucket.grantWrite(grantee)\<close> is recorded as a declaration of its own that names the bucket
  and the grantee.
\<close>

record WriteGrant =
  grant_bucket :: ref
  grantee :: ref

datatype Construct =
    CVpc Vpc
  | CSecurityGroup SecurityGroup
  | CSecret Secret
  | CSubnetGroup SubnetGroup
  | CDatabaseInstance DatabaseInstance
  | CApplicationLoadBalancer ApplicationLoadBalancer
  | CRole Role
  | CAutoScalingGroup AutoScalingGroup
  | CApplicationListener ApplicationListener
  | CApplicationTargetGroup ApplicationTargetGroup
  | CCfnOutput CfnOutput
  | CLogGroup LogGroup
  | CInstance Instance
  | CBucket Bucket
  | CFunction LambdaFunction
  | CSubscriptionFilter SubscriptionFilter
  | CWriteGrant WriteGrant

subsection \<open>The stack\<close>

record Environment =
  region :: "string option"

record StackProps =
  env :: "Environment option"

text \<open>
  A stack holds its constructs in declaration order, each under its identifier. The
  \<open>scope\<close> argument of the constructors only says where the stack is registered and is
  not modelled.
\<close>

record Stack =
  stack_id :: string
  stack_props :: "StackProps option"
  children :: "(ref \<times> Construct) list"

definition super :: "string \<Rightarrow> StackProps option \<Rightarrow> Stack" where
  "super ident props = \<lparr>stack_id = ident, stack_props = props, children = []\<rparr>"

text \<open>\<open>new C(this, id, props)\<close> declares the construct and returns the reference to it.\<close>

definition new :: "Stack \<Rightarrow> ref \<Rightarrow> Construct \<Rightarrow> ref \<times> Stack" where
  "new this ident c = (ident, this\<lparr>children := children this @ [(ident, c)]\<rparr>)"

definition lookup :: "Stack \<Rightarrow> ref \<Rightarrow> Construct option" where
  "lookup this r = map_of (children this) r"

text \<open>
  A method call on a construct changes the construct that the reference names. The
  framework that implements the methods is not part of the repository; each call is
  recorded as the declaration it makes, with the arguments of the source.
\<close>

definition update :: "ref \<Rightarrow> (Construct \<Rightarrow> Construct) \<Rightarrow> Stack \<Rightarrow> Stack" where
  "update r f this =
     this\<lparr>children := map (\<lambda>(i, c). if i = r then (i, f c) else (i, c)) (children this)\<rparr>"

fun add_rule :: "IngressRule \<Rightarrow> Construct \<Rightarrow> Construct" where
  "add_rule r (CSecurityGroup g) = CSecurityGroup (g\<lparr>ingressRules := ingressRules g @ [r]\<rparr>)"
| "add_rule r c = c"

definition addIngressRule :: "ref \<Rightarrow> Peer \<Rightarrow> Port \<Rightarrow> string \<Rightarrow> Stack \<Rightarrow> Stack" where
  "addIngressRule g p c d this =
     update g (add_rule \<lparr>peer = p, connection = c, rule_description = d\<rparr>) this"

text \<open>
  Modelled from the spec: the framework's \<open>Role.addManagedPolicy\<close> is not part of the
  repository. Following the spec, attaching a managed policy that the role already has is a
  no-op: it adds no second entry.
\<close>

fun attach_policy :: "ManagedPolicy \<Rightarrow> Construct \<Rightarrow> Construct" where
  "attach_policy p (CRole r) =
     (if p \<in> set (managedPolicies r) then CRole r
      else CRole (r\<lparr>managedPolicies := managedPolicies r @ [p]\<rparr>))"
| "attach_policy p c = c"

definition addManagedPolicy :: "ref \<Rightarrow> ManagedPolicy \<Rightarrow> Stack \<Rightarrow> Stack" where
  "addManagedPolicy r p this = update r (attach_policy p) this"

fun add_statement :: "PolicyStatement \<Rightarrow> Construct \<Rightarrow> Construct" where
  "add_statement s (CRole r) = CRole (r\<lparr>policyStatements := policyStatements r @ [s]\<rparr>)"
| "add_statement s c = c"

definition addToPolicy :: "ref \<Rightarrow> PolicyStatement \<Rightarrow> Stack \<Rightarrow> Stack" where
  "addToPolicy r s this = update r (add_statement s) this"

fun set_removal :: "RemovalPolicy \<Rightarrow> Construct \<Rightarrow> Construct" where
  "set_removal p (CLogGroup g) = CLogGroup (g\<lparr>lg_removalPolicy := Some p\<rparr>)"
| "set_removal p c = c"

definition applyRemovalPolicy :: "ref \<Rightarrow> RemovalPolicy \<Rightarrow> Stack \<Rightarrow> Stack" where
  "applyRemovalPolicy g p this = update g (set_removal p) this"

text \<open>
  \<open>alb.addListener(id, props)\<close> and \<open>listener.addTargets(id, props)\<close> declare a listener of
  the load balancer and a target group of the listener.
\<close>

definition addListener :: "ref \<Rightarrow> ref \<Rightarrow> nat \<Rightarrow> bool \<Rightarrow> Stack \<Rightarrow> ref \<times> Stack" where
  "addListener alb ident p opn this =
     new this ident (CApplicationListener
       \<lparr>loadBalancer = alb, listener_port = p, listener_open = opn\<rparr>)"

definition addTargets :: "ref \<Rightarrow> ref \<Rightarrow> nat \<Rightarrow> ref list \<Rightarrow> HealthCheck \<Rightarrow> Stack \<Rightarrow> Stack" where
  "addTargets listener ident p ts hc this =
     snd (new this ident (CApplicationTargetGroup
       \<lparr>tg_listener = listener, tg_port = p, targets = ts, healthCheck = hc\<rparr>))"

definition grantWrite :: "ref \<Rightarrow> ref \<Rightarrow> Stack \<Rightarrow> Stack" where
  "grantWrite bucket g this =
     snd (new this (bucket @ ''.grantWrite('' @ g @ '')'')
       (CWriteGrant \<lparr>grant_bucket = bucket, grantee = g\<rparr>))"

text \<open>\<open>JSON.stringify\<close> of an object whose values are strings without special characters.\<close>

fun JSON_members :: "(string \<times> string) list \<Rightarrow> string" where
  "JSON_members [] = []"
| "JSON_members [(k, v)] = [CHR 0x22] @ k @ [CHR 0x22] @ '':'' @ [CHR 0x22] @ v @ [CHR 0x22]"
| "JSON_members ((k, v) # m # ms) =
     [CHR 0x22] @ k @ [CHR 0x22] @ '':'' @ [CHR 0x22] @ v @ [CHR 0x22]
       @ '','' @ JSON_members (m # ms)"

definition JSON_stringify :: "(string \<times> string) list \<Rightarrow> string" where
  "JSON_stringify obj = ''{'' @ JSON_members obj @ ''}''"

section \<open>The stacks\<close>

subsection \<open>\<open>AWSstack\<close>: network, load balancer, compute fleet and database\<close>

text \<open>
  The constructor, statement by statement. The comment lines of the bootstrap script are
  not ASCII in the source; they are given as their UTF-8 bytes.
\<close>

definition AWSstack :: "string \<Rightarrow> StackProps option \<Rightarrow> Stack" where
  \<open>AWSstack ident props =
    (let this = super ident props;
       (vpc, this) = new this ''MyAppVPC'' (CVpc
         \<lparr>cidr = Some ''10.0.0.0/16'',
          maxAzs = 2,
          natGateways = Some 2,
          subnetConfiguration =
            [\<lparr>cidrMask = Some 24, name = ''PublicSubnet'', subnetType = PUBLIC\<rparr>,
             \<lparr>cidrMask = Some 24, name = ''PrivateSubnet'', subnetType = PRIVATE_WITH_EGRESS\<rparr>]\<rparr>);
       (albSecurityGroup, this) = new this ''ALBSecurityGroup'' (CSecurityGroup
         \<lparr>sg_vpc = vpc,
          allowAllOutbound = True,
          sg_description = Some ''Security group for ALB'',
          ingressRules = []\<rparr>);
       this = addIngressRule albSecurityGroup anyIpv4 (tcp 80) ''Allow HTTP from Internet'' this;
       (ec2SecurityGroup, this) = new this ''EC2SecurityGroup'' (CSecurityGroup
         \<lparr>sg_vpc = vpc,
          allowAllOutbound = True,
          sg_description = Some ''Security group for EC2 in private subnet'',
          ingressRules = []\<rparr>);
       this = addIngressRule ec2SecurityGroup (SecurityGroupPeer albSecurityGroup) (tcp 80)
                ''Allow HTTP from ALB'' this;
       (rdsSecurityGroup, this) = new this ''RDSSecurityGroup'' (CSecurityGroup
         \<lparr>sg_vpc = vpc,
          allowAllOutbound = True,
          sg_description = Some ''Security group for RDS in private subnet'',
          ingressRules = []\<rparr>);
       this = addIngressRule rdsSecurityGroup (SecurityGroupPeer ec2SecurityGroup) (tcp 3306)
                ''Allow MySQL access from EC2'' this;
       (dbSecret, this) = new this ''DBSecret'' (CSecret
         \<lparr>generateSecretString =
            \<lparr>secretStringTemplate = JSON_stringify [(''username'', ''admin'')],
             generateStringKey = ''password'',
             excludePunctuation = True,
             includeSpace = False\<rparr>\<rparr>);
       (dbSubnetGroup, this) = new this ''DBSubnetGroup'' (CSubnetGroup
         \<lparr>sng_vpc = vpc,
          sng_description = ''Subnet group for RDS'',
          subnetGroupName = ''PrivateSubnetGroup'',
          sng_vpcSubnets = PRIVATE_WITH_EGRESS,
          sng_removalPolicy = DESTROY\<rparr>);
       (dbInstance, this) = new this ''MyRDSInstance'' (CDatabaseInstance
         \<lparr>engine = mysql VER_8_0,
          db_instanceType = InstanceType_of BURSTABLE3 SMALL,
          db_vpc = vpc,
          db_vpcSubnets = PRIVATE_WITH_EGRESS,
          credentials = fromSecret dbSecret,
          multiAz = True,
          allocatedStorage = 20,
          maxAllocatedStorage = 100,
          securityGroups = [rdsSecurityGroup],
          subnetGroup = dbSubnetGroup,
          publiclyAccessible = False,
          db_removalPolicy = DESTROY,
          deletionProtection = False,
          databaseName = ''wordpressdb''\<rparr>);
       (alb, this) = new this ''MyALB'' (CApplicationLoadBalancer
         \<lparr>alb_vpc = vpc,
          internetFacing = True,
          alb_securityGroup = albSecurityGroup,
          loadBalancerName = ''MyWordPressALB''\<rparr>);
       (ec2Role, this) = new this ''EC2Role'' (CRole
         \<lparr>assumedBy = ServicePrincipal ''ec2.amazonaws.com'',
          role_description = Some ''Role for EC2 instances'',
          managedPolicies = [],
          policyStatements = []\<rparr>);
       this = addManagedPolicy ec2Role (fromAwsManagedPolicyName ''AmazonSSMManagedInstanceCore'') this;
       userData = forLinux;
       userData = addCommands userData
        [''#!/bin/bash'',
         ''# 1. '' @ [CHR 0xE3, CHR 0x83, CHR 0x91, CHR 0xE3, CHR 0x83, CHR 0x83, CHR 0xE3,
           CHR 0x82, CHR 0xB1, CHR 0xE3, CHR 0x83, CHR 0xBC, CHR 0xE3, CHR 0x82, CHR 0xB8,
           CHR 0xE3, CHR 0x81, CHR 0xAE, CHR 0xE6, CHR 0x9B, CHR 0xB4, CHR 0xE6, CHR 0x96,
           CHR 0xB0],
         ''yum update -y'',
         ''# 2. Apache HTTP'' @ [CHR 0xE3, CHR 0x82, CHR 0xB5, CHR 0xE3, CHR 0x83, CHR 0xBC,
           CHR 0xE3, CHR 0x83, CHR 0x90, CHR 0xE3, CHR 0x83, CHR 0xBC, CHR 0xE3, CHR 0x81,
           CHR 0xAE, CHR 0xE3, CHR 0x82, CHR 0xA4, CHR 0xE3, CHR 0x83, CHR 0xB3, CHR 0xE3,
           CHR 0x82, CHR 0xB9, CHR 0xE3, CHR 0x83, CHR 0x88, CHR 0xE3, CHR 0x83, CHR 0xBC,
           CHR 0xE3, CHR 0x83, CHR 0xAB, CHR 0xE3, CHR 0x81, CHR 0xA8, CHR 0xE8, CHR 0x87,
           CHR 0xAA, CHR 0xE5, CHR 0x8B, CHR 0x95, CHR 0xE8, CHR 0xB5, CHR 0xB7, CHR 0xE5,
           CHR 0x8B, CHR 0x95, CHR 0xE8, CHR 0xA8, CHR 0xAD, CHR 0xE5, CHR 0xAE, CHR 0x9A],
         ''yum install -y httpd'',
         ''systemctl enable httpd'',
         ''systemctl start httpd'',
         ''# 3. "Hello World" '' @ [CHR 0xE3, CHR 0x82, CHR 0x92, CHR 0xE8, CHR 0xBF, CHR 0x94,
           CHR 0xE3, CHR 0x81, CHR 0x99, CHR 0xE5, CHR 0x8D, CHR 0x98, CHR 0xE7, CHR 0xB4,
           CHR 0x94, CHR 0xE3, CHR 0x81, CHR 0xAA] @ ''HTML'' @ [CHR 0xE3, CHR 0x83, CHR 0x95,
           CHR 0xE3, CHR 0x82, CHR 0xA1, CHR 0xE3, CHR 0x82, CHR 0xA4, CHR 0xE3, CHR 0x83,
           CHR 0xAB, CHR 0xE4, CHR 0xBD, CHR 0x9C, CHR 0xE6, CHR 0x88, CHR 0x90],
         ''echo "<html><h1>Hello World</h1></html>" > /var/www/html/index.html'',
         ''# 4. ('' @ [CHR 0xE4, CHR 0xBB, CHR 0xBB, CHR 0xE6, CHR 0x84, CHR 0x8F]
           @ '') '' @ [CHR 0xE3, CHR 0x83, CHR 0x91, CHR 0xE3, CHR 0x83, CHR 0xBC, CHR 0xE3,
           CHR 0x83, CHR 0x9F, CHR 0xE3, CHR 0x83, CHR 0x83, CHR 0xE3, CHR 0x82, CHR 0xB7,
           CHR 0xE3, CHR 0x83, CHR 0xA7, CHR 0xE3, CHR 0x83, CHR 0xB3, CHR 0xE3, CHR 0x82,
           CHR 0x84, CHR 0xE6, CHR 0x89, CHR 0x80, CHR 0xE6, CHR 0x9C, CHR 0x89, CHR 0xE8,
           CHR 0x80, CHR 0x85, CHR 0xE8, CHR 0xA8, CHR 0xAD, CHR 0xE5, CHR 0xAE, CHR 0x9A,
           CHR 0xE3, CHR 0x81, CHR 0xAE, CHR 0xE6, CHR 0x95, CHR 0xB4, CHR 0xE5, CHR 0x82,
           CHR 0x99],
         ''chown apache:apache /var/www/html/index.html'',
         ''chmod 644 /var/www/html/index.html''];
       (asg, this) = new this ''WordPressASG'' (CAutoScalingGroup
         \<lparr>asg_vpc = vpc,
          asg_instanceType = InstanceType_of T3 MICRO,
          asg_machineImage = latestAmazonLinux,
          asg_role = ec2Role,
          asg_securityGroup = ec2SecurityGroup,
          desiredCapacity = 2,
          minCapacity = 2,
          maxCapacity = 4,
          asg_vpcSubnets = PRIVATE_WITH_EGRESS,
          asg_userData = userData\<rparr>);
       (listener, this) = addListener alb ''HTTPListener'' 80 True this;
       this = addTargets listener ''WordPressFleet'' 80 [asg]
                \<lparr>path = ''/'', interval = seconds 30\<rparr> this;
       this = snd (new this ''LoadBalancerDNS'' (CCfnOutput
         \<lparr>out_description = ''DNS Name of the ALB'',
          out_value = loadBalancerDnsName alb\<rparr>));
       this = snd (new this ''DBEndpoint'' (CCfnOutput
         \<lparr>out_description = ''Endpoint of the RDS DB'',
          out_value = dbInstanceEndpointAddress dbInstance\<rparr>))
     in this)\<close>

subsection \<open>\<open>Ec2LoggingStack\<close>: a public instance and its logging pipeline\<close>

definition Ec2LoggingStack :: "string \<Rightarrow> StackProps option \<Rightarrow> Stack" where
  \<open>Ec2LoggingStack ident props =
    (let this = super ident props;
       (vpc, this) = new this ''AppVPC'' (CVpc
         \<lparr>cidr = None,
          maxAzs = 2,
          natGateways = None,
          subnetConfiguration = [\<lparr>cidrMask = None, name = ''public'', subnetType = PUBLIC\<rparr>]\<rparr>);
       (ec2Role, this) = new this ''EC2Role'' (CRole
         \<lparr>assumedBy = ServicePrincipal ''ec2.amazonaws.com'',
          role_description = None,
          managedPolicies = [],
          policyStatements = []\<rparr>);
       this = addManagedPolicy ec2Role (fromAwsManagedPolicyName ''CloudWatchAgentServerPolicy'') this;
       this = addManagedPolicy ec2Role (fromAwsManagedPolicyName ''CloudWatchAgentServerPolicy'') this;
       (logGroup, this) = new this ''AppLogGroup'' (CLogGroup
         \<lparr>logGroupName = ''/ec2/app/logs'',
          retention = ONE_WEEK,
          lg_removalPolicy = None\<rparr>);
       (securityGroup, this) = new this ''WebSG'' (CSecurityGroup
         \<lparr>sg_vpc = vpc,
          allowAllOutbound = True,
          sg_description = None,
          ingressRules = []\<rparr>);
       this = addIngressRule securityGroup anyIpv4 (tcp 80) ''Allow HTTP traffic'' this;
       this = addIngressRule securityGroup anyIpv4 (tcp 22) ''Allow SSH'' this;
       this = addIngressRule securityGroup anyIpv4 (tcp 443) ''Allow HTTPS traffic'' this;
       userData = forLinux;
       userData = addCommands userData
        [''yum update -y'',
         ''yum install -y httpd amazon-cloudwatch-agent'',
         ''systemctl start httpd'',
         ''systemctl enable httpd'',
         ''echo "<html><head><title>Hello</title></head><body><h1>Hello World</h1></body></html>" > /var/www/html/index.html'',
         ''cat <<EOF > /opt/aws/amazon-cloudwatch-agent/bin/config.json'',
         ''{'',
         ''  "logs": {'',
         ''    "logs_collected": {'',
         ''      "files": {'',
         ''        "collect_list": ['',
         ''          {'',
         ''            "file_path": "/var/log/httpd/access_log",'',
         ''            "log_group_name": "/ec2/app/logs",'',
         ''            "log_stream_name": "{instance_id}/access_log",'',
         ''            "timestamp_format": "%d/%b/%Y:%H:%M:%S %z"'',
         ''          },'',
         ''          {'',
         ''            "file_path": "/var/log/httpd/error_log",'',
         ''            "log_group_name": "/ec2/app/logs",'',
         ''            "log_stream_name": "{instance_id}/error_log",'',
         ''            "timestamp_format": "%Y/%m/%d %H:%M:%S"'',
         ''          }'',
         ''        ]'',
         ''      }'',
         ''    }'',
         ''  }'',
         ''}'',
         ''EOF'',
         ''/opt/aws/amazon-cloudwatch-agent/bin/amazon-cloudwatch-agent-ctl -a fetch-config -m ec2 -c file:/opt/aws/amazon-cloudwatch-agent/bin/config.json -s''];
       (instance, this) = new this ''AppInstance'' (CInstance
         \<lparr>inst_vpc = vpc,
          inst_instanceType = InstanceType ''t3.micro'',
          inst_machineImage = latestAmazonLinux2,
          inst_role = ec2Role,
          inst_vpcSubnets = PUBLIC,
          associatePublicIpAddress = True,
          inst_userData = userData,
          inst_securityGroup = securityGroup\<rparr>);
       (bucket, this) = new this ''LogStorageBucket'' (CBucket
         \<lparr>versioned = True,
          bucket_removalPolicy = DESTROY,
          autoDeleteObjects = True,
          lifecycleRules = [\<lparr>expiration = days 30, noncurrentVersionExpiration = days 30\<rparr>]\<rparr>);
       (lambdaRole, this) = new this ''LambdaRole'' (CRole
         \<lparr>assumedBy = ServicePrincipal ''lambda.amazonaws.com'',
          role_description = None,
          managedPolicies = [],
          policyStatements = []\<rparr>);
       this = addManagedPolicy lambdaRole
                (fromAwsManagedPolicyName ''service-role/AWSLambdaBasicExecutionRole'') this;
       this = addToPolicy lambdaRole
                \<lparr>actions = [''s3:PutObject''],
                 resources = [[attr (bucketArn bucket), lit ''/*'']]\<rparr> this;
       (logProcessor, this) = new this ''LogProcessor'' (CFunction
         \<lparr>runtime = PYTHON_3_9,
          handler = ''index.handler'',
          code = fromAsset [dirname, part ''..'', part ''lambda''],
          timeout = seconds 30,
          fn_role = lambdaRole,
          environment = [(''BUCKET_NAME'', bucketName bucket)]\<rparr>);
       this = grantWrite bucket logProcessor this;
       this = snd (new this ''LogFilter'' (CSubscriptionFilter
         \<lparr>sf_logGroup = logGroup,
          destination = LambdaDestination logProcessor,
          filterPattern = allEvents\<rparr>));
       this = applyRemovalPolicy logGroup DESTROY this
     in this)\<close>

text \<open>
  The two places that instantiate the logging stack: the end of the module
  \<open>lib/ec2_logging_stack.ts\<close> and \<open>bin/2.ts\<close>, each on an application of its own.
\<close>

definition lib_main :: Stack where
  "lib_main = Ec2LoggingStack ''Ec2LoggingStack''
     (Some \<lparr>env = Some \<lparr>region = Some ''ap-northeast-1''\<rparr>\<rparr>)"

definition bin_main :: Stack where
  "bin_main = Ec2LoggingStack ''Ec2LoggingStack''
     (Some \<lparr>env = Some \<lparr>region = Some ''ap-northeast-1''\<rparr>\<rparr>)"

section \<open>Observations on a stack\<close>

text \<open>Reading a construct of a given kind back from the stack.\<close>

definition the_SecurityGroup :: "Stack \<Rightarrow> ref \<Rightarrow> SecurityGroup option" where
  "the_SecurityGroup this r =
     (case lookup this r of Some (CSecurityGroup g) \<Rightarrow> Some g | _ \<Rightarrow> None)"

definition the_LogGroup :: "Stack \<Rightarrow> ref \<Rightarrow> LogGroup option" where
  "the_LogGroup this r = (case lookup this r of Some (CLogGroup g) \<Rightarrow> Some g | _ \<Rightarrow> None)"

definition the_SubscriptionFilter :: "Stack \<Rightarrow> ref \<Rightarrow> SubscriptionFilter option" where
  "the_SubscriptionFilter this r =
     (case lookup this r of Some (CSubscriptionFilter f) \<Rightarrow> Some f | _ \<Rightarrow> None)"

definition the_Instance :: "Stack \<Rightarrow> ref \<Rightarrow> Instance option" where
  "the_Instance this r = (case lookup this r of Some (CInstance i) \<Rightarrow> Some i | _ \<Rightarrow> None)"

definition the_Role :: "Stack \<Rightarrow> ref \<Rightarrow> Role option" where
  "the_Role this r = (case lookup this r of Some (CRole x) \<Rightarrow> Some x | _ \<Rightarrow> None)"

definition the_Vpc :: "Stack \<Rightarrow> ref \<Rightarrow> Vpc option" where
  "the_Vpc this r = (case lookup this r of Some (CVpc v) \<Rightarrow> Some v | _ \<Rightarrow> None)"

definition ingress_of :: "Stack \<Rightarrow> ref \<Rightarrow> IngressRule list" where
  "ingress_of this g =
     (case the_SecurityGroup this g of Some x \<Rightarrow> ingressRules x | None \<Rightarrow> [])"

subsection \<open>Security groups by the role of the resource that carries them\<close>

fun alb_groups :: "Construct \<Rightarrow> ref list" where
  "alb_groups (CApplicationLoadBalancer b) = [alb_securityGroup b]"
| "alb_groups c = []"

fun fleet_groups :: "Construct \<Rightarrow> ref list" where
  "fleet_groups (CAutoScalingGroup a) = [asg_securityGroup a]"
| "fleet_groups c = []"

fun compute_groups :: "Construct \<Rightarrow> ref list" where
  "compute_groups (CAutoScalingGroup a) = [asg_securityGroup a]"
| "compute_groups (CInstance i) = [inst_securityGroup i]"
| "compute_groups c = []"

fun database_groups :: "Construct \<Rightarrow> ref list" where
  "database_groups (CDatabaseInstance d) = securityGroups d"
| "database_groups c = []"

definition groups_of :: "(Construct \<Rightarrow> ref list) \<Rightarrow> Stack \<Rightarrow> ref list" where
  "groups_of f this = concat (map (\<lambda>(i, c). f c) (children this))"

subsection \<open>What the declared rules permit\<close>

text \<open>
  A source of inbound traffic has an address and belongs to some security groups. A rule
  whose peer is the range of all IPv4 addresses admits every source; a rule whose peer is a
  security group admits the members of that group. A security group permits a source on a
  port when one of its ingress rules is for that port and admits the source.
\<close>

record Source =
  address :: string
  memberOf :: "ref list"

fun admits :: "Peer \<Rightarrow> Source \<Rightarrow> bool" where
  "admits anyIpv4 s = True"
| "admits (SecurityGroupPeer g) s = (g \<in> set (memberOf s))"

definition permits :: "Stack \<Rightarrow> ref \<Rightarrow> Source \<Rightarrow> nat \<Rightarrow> bool" where
  "permits this g s p =
     list_ex (\<lambda>r. connection r = tcp p \<and> admits (peer r) s) (ingress_of this g)"

text \<open>
  Every security group of a database has ingress rules, and each of them is on port 3306
  with a security group of the compute fleet as its source.
\<close>

definition database_ingress_ok :: "Stack \<Rightarrow> bool" where
  "database_ingress_ok this =
     (\<forall>g \<in> set (groups_of database_groups this).
        ingress_of this g \<noteq> [] \<and>
        (\<forall>r \<in> set (ingress_of this g).
           connection r = tcp 3306 \<and> \<not> is_cidr (peer r) \<and>
           (\<exists>f \<in> set (groups_of fleet_groups this). peer r = SecurityGroupPeer f)))"

text \<open>
  Every security group of a load balancer has a rule on port 80 from any IPv4 address, and
  every rule on port 80 of a security group of a compute resource has a security group of
  a load balancer as its source.
\<close>

definition http_chain_ok :: "Stack \<Rightarrow> bool" where
  "http_chain_ok this =
     ((\<forall>a \<in> set (groups_of alb_groups this).
         \<exists>r \<in> set (ingress_of this a). connection r = tcp 80 \<and> peer r = anyIpv4) \<and>
      (\<forall>g \<in> set (groups_of compute_groups this).
         \<forall>r \<in> set (ingress_of this g).
           connection r = tcp 80 \<longrightarrow>
             (\<exists>a \<in> set (groups_of alb_groups this). peer r = SecurityGroupPeer a)))"

subsection \<open>The reference graph\<close>

text \<open>
  A construct refers to the constructs its parameters name. The edges keep the kind of the
  reference: an ordinary parameter, the source of an ingress rule, or the membership of a
  target in a target group.
\<close>

datatype EdgeKind = ParameterRef | SecurityRuleRef | TargetMembership

fun attribute_ref :: "Attribute \<Rightarrow> ref" where
  "attribute_ref (loadBalancerDnsName r) = r"
| "attribute_ref (dbInstanceEndpointAddress r) = r"
| "attribute_ref (bucketArn r) = r"
| "attribute_ref (bucketName r) = r"

fun template_refs :: "TemplatePart list \<Rightarrow> ref list" where
  "template_refs [] = []"
| "template_refs (attr a # ts) = attribute_ref a # template_refs ts"
| "template_refs (lit s # ts) = template_refs ts"

fun rule_refs :: "IngressRule list \<Rightarrow> ref list" where
  "rule_refs [] = []"
| "rule_refs (r # rs) =
     (case peer r of SecurityGroupPeer g \<Rightarrow> g # rule_refs rs | anyIpv4 \<Rightarrow> rule_refs rs)"

definition params :: "ref list \<Rightarrow> (EdgeKind \<times> ref) list" where
  "params rs = map (Pair ParameterRef) rs"

fun refs :: "Construct \<Rightarrow> (EdgeKind \<times> ref) list" where
  "refs (CVpc v) = []"
| "refs (CSecurityGroup g) =
     params [sg_vpc g] @ map (Pair SecurityRuleRef) (rule_refs (ingressRules g))"
| "refs (CSecret s) = []"
| "refs (CSubnetGroup g) = params [sng_vpc g]"
| "refs (CDatabaseInstance d) =
     params ([db_vpc d] @ (case credentials d of fromSecret s \<Rightarrow> [s]) @ securityGroups d @
       [subnetGroup d])"
| "refs (CApplicationLoadBalancer b) = params [alb_vpc b, alb_securityGroup b]"
| "refs (CRole r) =
     params (concat (map (\<lambda>s. concat (map template_refs (resources s))) (policyStatements r)))"
| "refs (CAutoScalingGroup a) = params [asg_vpc a, asg_role a, asg_securityGroup a]"
| "refs (CApplicationListener l) = params [loadBalancer l]"
| "refs (CApplicationTargetGroup t) =
     params [tg_listener t] @ map (Pair TargetMembership) (targets t)"
| "refs (CCfnOutput out) = params [attribute_ref (out_value out)]"
| "refs (CLogGroup g) = []"
| "refs (CInstance i) = params [inst_vpc i, inst_role i, inst_securityGroup i]"
| "refs (CBucket b) = []"
| "refs (CFunction f) =
     params (fn_role f # map (\<lambda>(k, a). attribute_ref a) (environment f))"
| "refs (CSubscriptionFilter f) =
     params [sf_logGroup f, (case destination f of LambdaDestination d \<Rightarrow> d)]"
| "refs (CWriteGrant g) = params [grant_bucket g, grantee g]"

definition edges :: "Stack \<Rightarrow> (ref \<times> EdgeKind \<times> ref) list" where
  "edges this = concat (map (\<lambda>(i, c). map (Pair i) (refs c)) (children this))"

definition node_ids :: "Stack \<Rightarrow> ref list" where
  "node_ids this = map fst (children this)"

text \<open>The dependency relation of a stack: all references, whatever their kind.\<close>

definition depends :: "Stack \<Rightarrow> (ref \<times> ref) set" where
  "depends this = (\<lambda>(a, k, b). (a, b)) ` set (edges this)"

definition no_dangling :: "Stack \<Rightarrow> bool" where
  "no_dangling this = (\<forall>(a, k, b) \<in> set (edges this). b \<in> set (node_ids this))"

text \<open>The place of a construct in the declaration order of its stack.\<close>

definition position :: "Stack \<Rightarrow> ref \<Rightarrow> nat" where
  "position this r = length (takeWhile (\<lambda>i. i \<noteq> r) (node_ids this))"

definition declared_before_use :: "Stack \<Rightarrow> bool" where
  "declared_before_use this =
     list_all (\<lambda>(a, k, b). position this b < position this a) (edges this)"

subsection \<open>Subnets and placement\<close>

definition public_names :: "Vpc \<Rightarrow> string list" where
  "public_names v = map name (filter (\<lambda>c. subnetType c = PUBLIC) (subnetConfiguration v))"

definition private_names :: "Vpc \<Rightarrow> string list" where
  "private_names v = map name (filter (\<lambda>c. subnetType c \<noteq> PUBLIC) (subnetConfiguration v))"

text \<open>No subnet group of the network is public and private at once.\<close>

definition separated :: "Vpc \<Rightarrow> bool" where
  "separated v = (set (public_names v) \<inter> set (private_names v) = {})"

text \<open>
  A subnet selection has an egress path when it selects the private subnets with egress,
  the network declares such subnets, and the network declares public subnets and at least
  one NAT gateway to carry the outbound traffic.
\<close>

definition has_egress :: "Vpc \<Rightarrow> SubnetType \<Rightarrow> bool" where
  "has_egress v t =
     (t = PRIVATE_WITH_EGRESS \<and>
      list_ex (\<lambda>c. subnetType c = PRIVATE_WITH_EGRESS) (subnetConfiguration v) \<and>
      list_ex (\<lambda>c. subnetType c = PUBLIC) (subnetConfiguration v) \<and>
      (case natGateways v of Some n \<Rightarrow> 0 < n | None \<Rightarrow> False))"

text \<open>
  The network and the subnet selection (\<open>vpcSubnets\<close>) of the constructs that pass one. The
  load balancer passes none; it is declared internet facing.
\<close>

fun placement :: "Construct \<Rightarrow> (ref \<times> SubnetType) option" where
  "placement (CSubnetGroup g) = Some (sng_vpc g, sng_vpcSubnets g)"
| "placement (CDatabaseInstance d) = Some (db_vpc d, db_vpcSubnets d)"
| "placement (CAutoScalingGroup a) = Some (asg_vpc a, asg_vpcSubnets a)"
| "placement (CInstance i) = Some (inst_vpc i, inst_vpcSubnets i)"
| "placement c = None"

fun attached_groups :: "Construct \<Rightarrow> ref list" where
  "attached_groups (CDatabaseInstance d) = securityGroups d"
| "attached_groups (CAutoScalingGroup a) = [asg_securityGroup a]"
| "attached_groups (CInstance i) = [inst_securityGroup i]"
| "attached_groups (CApplicationLoadBalancer b) = [alb_securityGroup b]"
| "attached_groups c = []"

text \<open>Whether the declaration asks for an address that is reachable from the internet.\<close>

fun public_address :: "Construct \<Rightarrow> bool" where
  "public_address (CDatabaseInstance d) = publiclyAccessible d"
| "public_address (CInstance i) = associatePublicIpAddress i"
| "public_address (CApplicationLoadBalancer b) = internetFacing b"
| "public_address c = False"

definition private_resources :: "Stack \<Rightarrow> ref list" where
  "private_resources this =
     map fst (filter (\<lambda>(i, c). case placement c of Some (v, t) \<Rightarrow> t \<noteq> PUBLIC | None \<Rightarrow> False)
       (children this))"

definition no_inbound_from_internet :: "Stack \<Rightarrow> Construct \<Rightarrow> bool" where
  "no_inbound_from_internet this c =
     (\<not> public_address c \<and>
      list_all (\<lambda>g. list_all (\<lambda>r. \<not> is_cidr (peer r)) (ingress_of this g)) (attached_groups c))"

definition egress_only :: "Stack \<Rightarrow> Construct \<Rightarrow> bool" where
  "egress_only this c =
     (case placement c of
        None \<Rightarrow> False
      | Some (v, t) \<Rightarrow> (case the_Vpc this v of Some n \<Rightarrow> has_egress n t | None \<Rightarrow> False))"

definition private_isolation_ok :: "Stack \<Rightarrow> bool" where
  "private_isolation_ok this =
     ((\<forall>(i, c) \<in> set (children this). case c of CVpc v \<Rightarrow> separated v | _ \<Rightarrow> True) \<and>
      (\<forall>r \<in> set (private_resources this).
         case lookup this r of
           Some c \<Rightarrow> egress_only this c \<and> no_inbound_from_internet this c
         | None \<Rightarrow> False))"

subsection \<open>Bootstrap scripts and the agent configuration they write\<close>

definition userData_of :: "Stack \<Rightarrow> ref \<Rightarrow> UserData option" where
  "userData_of this r =
     (case lookup this r of
        Some (CInstance i) \<Rightarrow> Some (inst_userData i)
      | Some (CAutoScalingGroup a) \<Rightarrow> Some (asg_userData a)
      | _ \<Rightarrow> None)"

text \<open>The command lines the two stacks give to the script generator.\<close>

definition fleet_commands :: "string list" where
  "fleet_commands =
     (case userData_of (AWSstack ''AWSstack'' None) ''WordPressASG'' of
        Some u \<Rightarrow> lines u | None \<Rightarrow> [])"

definition logging_commands :: "string list" where
  "logging_commands =
     (case userData_of lib_main ''AppInstance'' of Some u \<Rightarrow> lines u | None \<Rightarrow> [])"

text \<open>
  The value of a string field in a line of the JSON document that the script writes: the
  line, after its indentation, starts with the quoted key, a colon, a blank and a quote; the
  value runs to the next quote.
\<close>

definition quote :: char where
  "quote = CHR 0x22"

definition field_of :: "string \<Rightarrow> string \<Rightarrow> string option" where
  "field_of key l =
     (let t = dropWhile (\<lambda>c. c = CHR '' '') l;
          k = quote # key @ quote # '': '' @ [quote]
      in if starts_with k t then Some (takeWhile (\<lambda>c. c \<noteq> quote) (drop (length k) t))
         else None)"

definition agent_log_groups :: "UserData \<Rightarrow> string list" where
  "agent_log_groups ud = List.map_filter (field_of ''log_group_name'') (lines ud)"

text \<open>The name of the log group that a subscription filter is attached to.\<close>

definition filtered_log_group :: "Stack \<Rightarrow> ref \<Rightarrow> string option" where
  "filtered_log_group this f =
     (case the_SubscriptionFilter this f of
        Some x \<Rightarrow> map_option logGroupName (the_LogGroup this (sf_logGroup x))
      | None \<Rightarrow> None)"

section \<open>Properties\<close>

subsection \<open>Evaluating the constructors\<close>

lemmas stack_defs =
  Let_def new_def super_def update_def lookup_def addIngressRule_def addManagedPolicy_def
  addToPolicy_def applyRemovalPolicy_def addListener_def addTargets_def grantWrite_def

lemmas observation_defs =
  the_SecurityGroup_def the_LogGroup_def the_SubscriptionFilter_def the_Instance_def
  the_Role_def the_Vpc_def ingress_of_def groups_of_def

lemmas placement_defs =
  private_isolation_ok_def private_resources_def egress_only_def no_inbound_from_internet_def
  has_egress_def separated_def public_names_def private_names_def

lemma AWSstack_database_groups:
  "groups_of database_groups (AWSstack i p) = [''RDSSecurityGroup'']"
  by (simp add: AWSstack_def stack_defs observation_defs)

lemma AWSstack_fleet_groups:
  "groups_of fleet_groups (AWSstack i p) = [''EC2SecurityGroup'']"
  by (simp add: AWSstack_def stack_defs observation_defs)

lemma AWSstack_compute_groups:
  "groups_of compute_groups (AWSstack i p) = [''EC2SecurityGroup'']"
  by (simp add: AWSstack_def stack_defs observation_defs)

lemma AWSstack_alb_groups:
  "groups_of alb_groups (AWSstack i p) = [''ALBSecurityGroup'']"
  by (simp add: AWSstack_def stack_defs observation_defs)

lemma AWSstack_rds_ingress:
  "ingress_of (AWSstack i p) ''RDSSecurityGroup'' =
     [\<lparr>peer = SecurityGroupPeer ''EC2SecurityGroup'', connection = tcp 3306,
       rule_description = ''Allow MySQL access from EC2''\<rparr>]"
  by (simp add: AWSstack_def stack_defs observation_defs)

lemma AWSstack_ec2_ingress:
  "ingress_of (AWSstack i p) ''EC2SecurityGroup'' =
     [\<lparr>peer = SecurityGroupPeer ''ALBSecurityGroup'', connection = tcp 80,
       rule_description = ''Allow HTTP from ALB''\<rparr>]"
  by (simp add: AWSstack_def stack_defs observation_defs)

lemma AWSstack_alb_ingress:
  "ingress_of (AWSstack i p) ''ALBSecurityGroup'' =
     [\<lparr>peer = anyIpv4, connection = tcp 80,
       rule_description = ''Allow HTTP from Internet''\<rparr>]"
  by (simp add: AWSstack_def stack_defs observation_defs)

lemma Ec2LoggingStack_database_groups:
  "groups_of database_groups (Ec2LoggingStack i p) = []"
  by (simp add: Ec2LoggingStack_def stack_defs observation_defs)

lemma Ec2LoggingStack_alb_groups:
  "groups_of alb_groups (Ec2LoggingStack i p) = []"
  by (simp add: Ec2LoggingStack_def stack_defs observation_defs)

lemma Ec2LoggingStack_compute_groups:
  "groups_of compute_groups (Ec2LoggingStack i p) = [''WebSG'']"
  by (simp add: Ec2LoggingStack_def stack_defs observation_defs)

lemma Ec2LoggingStack_web_ingress:
  "ingress_of (Ec2LoggingStack i p) ''WebSG'' =
     [\<lparr>peer = anyIpv4, connection = tcp 80, rule_description = ''Allow HTTP traffic''\<rparr>,
      \<lparr>peer = anyIpv4, connection = tcp 22, rule_description = ''Allow SSH''\<rparr>,
      \<lparr>peer = anyIpv4, connection = tcp 443, rule_description = ''Allow HTTPS traffic''\<rparr>]"
  by (simp add: Ec2LoggingStack_def stack_defs observation_defs)

subsection \<open>Security rule chaining\<close>

text \<open>
  C1. In every stack the constructors build, each ingress rule of a database's security
  group is on port 3306 and has a security group of the compute fleet as its source, never
  an address range. In \<open>AWSstack\<close> the database carries \<open>RDSSecurityGroup\<close>, whose only rule
  has the fleet's \<open>EC2SecurityGroup\<close> as source, so that group permits a source on a port
  exactly when the port is 3306 and the source is a member of the fleet's group. The logging
  stack declares no database.
\<close>

theorem database_ingress_from_fleet_only:
  "database_ingress_ok (AWSstack i p) \<and>
   database_ingress_ok (Ec2LoggingStack i p) \<and>
   groups_of database_groups (AWSstack i p) = [''RDSSecurityGroup''] \<and>
   groups_of fleet_groups (AWSstack i p) = [''EC2SecurityGroup''] \<and>
   map (\<lambda>r. (peer r, connection r)) (ingress_of (AWSstack i p) ''RDSSecurityGroup'') =
     [(SecurityGroupPeer ''EC2SecurityGroup'', tcp 3306)] \<and>
   (\<forall>s n. permits (AWSstack i p) ''RDSSecurityGroup'' s n =
      (n = 3306 \<and> ''EC2SecurityGroup'' \<in> set (memberOf s)))"
  by (simp add: database_ingress_ok_def permits_def AWSstack_database_groups
      AWSstack_fleet_groups AWSstack_rds_ingress Ec2LoggingStack_database_groups)

theorem database_ingress_from_fleet_only_witness:
  "groups_of database_groups (AWSstack ''AWSstack'' None) = [''RDSSecurityGroup''] \<and>
   database_ingress_ok (AWSstack ''AWSstack'' None) \<and>
   permits (AWSstack ''AWSstack'' None) ''RDSSecurityGroup''
     \<lparr>address = ''10.0.1.5'', memberOf = [''EC2SecurityGroup'']\<rparr> 3306 \<and>
   \<not> permits (AWSstack ''AWSstack'' None) ''RDSSecurityGroup''
     \<lparr>address = ''203.0.113.7'', memberOf = []\<rparr> 3306"
  using database_ingress_from_fleet_only [of "''AWSstack''" None] by simp

text \<open>
  C2, as the claim states it, fails on the logging stack that \<open>bin/2.ts\<close> builds: the stack
  declares no load balancer, and the security group of its instance, \<open>WebSG\<close>, has a rule on
  port 80 whose source is the range of all IPv4 addresses, so it permits a source that is a
  member of no security group.
\<close>

theorem http_chain_logging_stack_counterexample:
  "\<not> http_chain_ok bin_main \<and>
   groups_of alb_groups bin_main = [] \<and>
   groups_of compute_groups bin_main = [''WebSG''] \<and>
   permits bin_main ''WebSG'' \<lparr>address = ''203.0.113.7'', memberOf = []\<rparr> 80"
  by (simp add: bin_main_def http_chain_ok_def permits_def Ec2LoggingStack_alb_groups
      Ec2LoggingStack_compute_groups Ec2LoggingStack_web_ingress)

text \<open>
  C2, amended. In \<open>AWSstack\<close> the load balancer's security group permits inbound TCP on
  port 80 from every source, and the compute fleet's security group permits inbound TCP on
  port 80 from the members of the load balancer's security group only. The logging stack
  declares no load balancer; the security group of its instance, \<open>WebSG\<close>, permits inbound
  TCP on port 80 from every source.
\<close>

theorem http_chain_in_AWSstack:
  "http_chain_ok (AWSstack i p) \<and>
   (\<forall>s. permits (AWSstack i p) ''ALBSecurityGroup'' s 80) \<and>
   (\<forall>s. permits (AWSstack i p) ''EC2SecurityGroup'' s 80 =
      (''ALBSecurityGroup'' \<in> set (memberOf s))) \<and>
   groups_of alb_groups (Ec2LoggingStack i p) = [] \<and>
   groups_of compute_groups (Ec2LoggingStack i p) = [''WebSG''] \<and>
   (\<forall>s. permits (Ec2LoggingStack i p) ''WebSG'' s 80)"
  by (simp add: http_chain_ok_def permits_def AWSstack_alb_groups AWSstack_compute_groups
      AWSstack_ec2_ingress AWSstack_alb_ingress Ec2LoggingStack_alb_groups
      Ec2LoggingStack_compute_groups Ec2LoggingStack_web_ingress)

theorem http_chain_in_AWSstack_witness:
  "groups_of alb_groups (AWSstack ''AWSstack'' None) = [''ALBSecurityGroup''] \<and>
   groups_of compute_groups (AWSstack ''AWSstack'' None) = [''EC2SecurityGroup''] \<and>
   http_chain_ok (AWSstack ''AWSstack'' None) \<and>
   permits (AWSstack ''AWSstack'' None) ''ALBSecurityGroup''
     \<lparr>address = ''203.0.113.7'', memberOf = []\<rparr> 80 \<and>
   permits (AWSstack ''AWSstack'' None) ''EC2SecurityGroup''
     \<lparr>address = ''10.0.0.9'', memberOf = [''ALBSecurityGroup'']\<rparr> 80 \<and>
   \<not> permits (AWSstack ''AWSstack'' None) ''EC2SecurityGroup''
     \<lparr>address = ''203.0.113.7'', memberOf = []\<rparr> 80"
  using http_chain_in_AWSstack [of "''AWSstack''" None]
  by (simp add: AWSstack_alb_groups AWSstack_compute_groups)

text \<open>
  C9. In the logging stack the instance carries \<open>WebSG\<close>, which has exactly three ingress
  rules: TCP from any IPv4 address on ports 80, 22 and 443. So \<open>WebSG\<close> permits every source
  on these three ports and on no other.
\<close>

theorem logging_instance_ingress_rules:
  "groups_of compute_groups (Ec2LoggingStack i p) = [''WebSG''] \<and>
   map (\<lambda>r. (peer r, connection r)) (ingress_of (Ec2LoggingStack i p) ''WebSG'') =
     [(anyIpv4, tcp 80), (anyIpv4, tcp 22), (anyIpv4, tcp 443)] \<and>
   (\<forall>s n. permits (Ec2LoggingStack i p) ''WebSG'' s n = (n = 80 \<or> n = 22 \<or> n = 443))"
  by (simp add: permits_def Ec2LoggingStack_compute_groups Ec2LoggingStack_web_ingress)

subsection \<open>The reference graph\<close>

lemma acyclic_if_declared_before_use:
  assumes "declared_before_use this"
  shows "acyclic (depends this)"
proof (rule acyclicI_order [where f = "position this"])
  fix a b
  assume "(a, b) \<in> depends this"
  then obtain k where "(a, k, b) \<in> set (edges this)"
    by (auto simp: depends_def)
  with assms show "position this b < position this a"
    by (auto simp: declared_before_use_def list_all_iff)
qed

lemma AWSstack_node_ids:
  "node_ids (AWSstack i p) =
     [''MyAppVPC'', ''ALBSecurityGroup'', ''EC2SecurityGroup'', ''RDSSecurityGroup'',
      ''DBSecret'', ''DBSubnetGroup'', ''MyRDSInstance'', ''MyALB'', ''EC2Role'',
      ''WordPressASG'', ''HTTPListener'', ''WordPressFleet'', ''LoadBalancerDNS'',
      ''DBEndpoint'']"
  by (simp add: AWSstack_def stack_defs node_ids_def)

lemma AWSstack_edges:
  "edges (AWSstack i p) =
     [(''ALBSecurityGroup'', ParameterRef, ''MyAppVPC''),
      (''EC2SecurityGroup'', ParameterRef, ''MyAppVPC''),
      (''EC2SecurityGroup'', SecurityRuleRef, ''ALBSecurityGroup''),
      (''RDSSecurityGroup'', ParameterRef, ''MyAppVPC''),
      (''RDSSecurityGroup'', SecurityRuleRef, ''EC2SecurityGroup''),
      (''DBSubnetGroup'', ParameterRef, ''MyAppVPC''),
      (''MyRDSInstance'', ParameterRef, ''MyAppVPC''),
      (''MyRDSInstance'', ParameterRef, ''DBSecret''),
      (''MyRDSInstance'', ParameterRef, ''RDSSecurityGroup''),
      (''MyRDSInstance'', ParameterRef, ''DBSubnetGroup''),
      (''MyALB'', ParameterRef, ''MyAppVPC''),
      (''MyALB'', ParameterRef, ''ALBSecurityGroup''),
      (''WordPressASG'', ParameterRef, ''MyAppVPC''),
      (''WordPressASG'', ParameterRef, ''EC2Role''),
      (''WordPressASG'', ParameterRef, ''EC2SecurityGroup''),
      (''HTTPListener'', ParameterRef, ''MyALB''),
      (''WordPressFleet'', ParameterRef, ''HTTPListener''),
      (''WordPressFleet'', TargetMembership, ''WordPressASG''),
      (''LoadBalancerDNS'', ParameterRef, ''MyALB''),
      (''DBEndpoint'', ParameterRef, ''MyRDSInstance'')]"
  by (simp add: AWSstack_def stack_defs edges_def params_def)

lemma Ec2LoggingStack_node_ids:
  "node_ids (Ec2LoggingStack i p) =
     [''AppVPC'', ''EC2Role'', ''AppLogGroup'', ''WebSG'', ''AppInstance'',
      ''LogStorageBucket'', ''LambdaRole'', ''LogProcessor'',
      ''LogStorageBucket.grantWrite(LogProcessor)'', ''LogFilter'']"
  by (simp add: Ec2LoggingStack_def stack_defs node_ids_def)

lemma Ec2LoggingStack_edges:
  "edges (Ec2LoggingStack i p) =
     [(''WebSG'', ParameterRef, ''AppVPC''),
      (''AppInstance'', ParameterRef, ''AppVPC''),
      (''AppInstance'', ParameterRef, ''EC2Role''),
      (''AppInstance'', ParameterRef, ''WebSG''),
      (''LambdaRole'', ParameterRef, ''LogStorageBucket''),
      (''LogProcessor'', ParameterRef, ''LambdaRole''),
      (''LogProcessor'', ParameterRef, ''LogStorageBucket''),
      (''LogStorageBucket.grantWrite(LogProcessor)'', ParameterRef, ''LogStorageBucket''),
      (''LogStorageBucket.grantWrite(LogProcessor)'', ParameterRef, ''LogProcessor''),
      (''LogFilter'', ParameterRef, ''AppLogGroup''),
      (''LogFilter'', ParameterRef, ''LogProcessor'')]"
  by (simp add: Ec2LoggingStack_def stack_defs edges_def params_def)

lemma AWSstack_declared_before_use: "declared_before_use (AWSstack i p)"
  by (simp add: declared_before_use_def position_def AWSstack_edges AWSstack_node_ids)

lemma Ec2LoggingStack_declared_before_use: "declared_before_use (Ec2LoggingStack i p)"
  by (simp add: declared_before_use_def position_def Ec2LoggingStack_edges
      Ec2LoggingStack_node_ids)

lemma AWSstack_no_dangling: "no_dangling (AWSstack i p)"
  by (simp add: no_dangling_def AWSstack_edges AWSstack_node_ids)

lemma Ec2LoggingStack_no_dangling: "no_dangling (Ec2LoggingStack i p)"
  by (simp add: no_dangling_def Ec2LoggingStack_edges Ec2LoggingStack_node_ids)

text \<open>
  C3. For every identifier and every properties object, the graph of each stack is acyclic
  (over all references, whatever their kind), every reference names a construct of the
  graph, and no two constructs share an identifier. In \<open>AWSstack\<close> the ingress rule of the
  fleet's security group refers to the load balancer's security group, and the target group
  of the listener has the fleet as a member: the two edges are of different kinds and close
  no cycle.
\<close>

theorem graphs_acyclic_and_closed:
  "acyclic (depends (AWSstack i p)) \<and> no_dangling (AWSstack i p) \<and>
   distinct (node_ids (AWSstack i p)) \<and>
   acyclic (depends (Ec2LoggingStack i p)) \<and> no_dangling (Ec2LoggingStack i p) \<and>
   distinct (node_ids (Ec2LoggingStack i p)) \<and>
   (''EC2SecurityGroup'', SecurityRuleRef, ''ALBSecurityGroup'') \<in> set (edges (AWSstack i p)) \<and>
   (''WordPressFleet'', TargetMembership, ''WordPressASG'') \<in> set (edges (AWSstack i p))"
proof -
  have "acyclic (depends (AWSstack i p))"
    by (rule acyclic_if_declared_before_use [OF AWSstack_declared_before_use])
  moreover have "acyclic (depends (Ec2LoggingStack i p))"
    by (rule acyclic_if_declared_before_use [OF Ec2LoggingStack_declared_before_use])
  moreover have "distinct (node_ids (AWSstack i p))"
    by (simp add: AWSstack_node_ids)
  moreover have "distinct (node_ids (Ec2LoggingStack i p))"
    by (simp add: Ec2LoggingStack_node_ids)
  moreover have "(''EC2SecurityGroup'', SecurityRuleRef, ''ALBSecurityGroup'')
      \<in> set (edges (AWSstack i p))"
    by (simp add: AWSstack_edges)
  moreover have "(''WordPressFleet'', TargetMembership, ''WordPressASG'')
      \<in> set (edges (AWSstack i p))"
    by (simp add: AWSstack_edges)
  ultimately show ?thesis
    using AWSstack_no_dangling Ec2LoggingStack_no_dangling by blast
qed

theorem graphs_acyclic_and_closed_witness:
  "(''EC2SecurityGroup'', ''ALBSecurityGroup'') \<in> depends (AWSstack ''AWSstack'' None) \<and>
   (''WordPressFleet'', ''WordPressASG'') \<in> depends (AWSstack ''AWSstack'' None) \<and>
   ''ALBSecurityGroup'' \<in> set (node_ids (AWSstack ''AWSstack'' None)) \<and>
   ''WordPressASG'' \<in> set (node_ids (AWSstack ''AWSstack'' None)) \<and>
   (''ALBSecurityGroup'', ''EC2SecurityGroup'') \<notin> (depends (AWSstack ''AWSstack'' None))\<^sup>+ \<and>
   acyclic (depends (AWSstack ''AWSstack'' None)) \<and>
   no_dangling (AWSstack ''AWSstack'' None)"
proof -
  note t = graphs_acyclic_and_closed [of "''AWSstack''" None]
  have e1: "(''EC2SecurityGroup'', ''ALBSecurityGroup'') \<in> depends (AWSstack ''AWSstack'' None)"
    using t by (force simp: depends_def)
  have e2: "(''WordPressFleet'', ''WordPressASG'') \<in> depends (AWSstack ''AWSstack'' None)"
    using t by (force simp: depends_def)
  have "(''ALBSecurityGroup'', ''EC2SecurityGroup'') \<notin> (depends (AWSstack ''AWSstack'' None))\<^sup>+"
  proof
    assume "(''ALBSecurityGroup'', ''EC2SecurityGroup'')
        \<in> (depends (AWSstack ''AWSstack'' None))\<^sup>+"
    with e1 have "(''EC2SecurityGroup'', ''EC2SecurityGroup'')
        \<in> (depends (AWSstack ''AWSstack'' None))\<^sup>+"
      by (rule trancl_into_trancl2)
    with t show False by (simp add: acyclic_def)
  qed
  with e1 e2 t show ?thesis
    by (simp add: AWSstack_node_ids)
qed

subsection \<open>Public and private subnets\<close>

lemma AWSstack_private_resources:
  "private_resources (AWSstack i p) = [''DBSubnetGroup'', ''MyRDSInstance'', ''WordPressASG'']"
  by (simp add: AWSstack_def stack_defs private_resources_def)

lemma Ec2LoggingStack_private_resources: "private_resources (Ec2LoggingStack i p) = []"
  by (simp add: Ec2LoggingStack_def stack_defs private_resources_def)

lemma AWSstack_private_isolation: "private_isolation_ok (AWSstack i p)"
  by (simp add: AWSstack_def stack_defs observation_defs placement_defs)

lemma Ec2LoggingStack_private_isolation: "private_isolation_ok (Ec2LoggingStack i p)"
  by (simp add: Ec2LoggingStack_def stack_defs observation_defs placement_defs)

lemma AWSstack_subnets:
  "map_option (\<lambda>v. (public_names v, private_names v, natGateways v))
     (the_Vpc (AWSstack i p) ''MyAppVPC'') = Some ([''PublicSubnet''], [''PrivateSubnet''], Some 2)"
  by (simp add: AWSstack_def stack_defs observation_defs placement_defs)

lemma Ec2LoggingStack_subnets:
  "map_option (\<lambda>v. (public_names v, private_names v))
     (the_Vpc (Ec2LoggingStack i p) ''AppVPC'') = Some ([''public''], [])"
  by (simp add: Ec2LoggingStack_def stack_defs observation_defs placement_defs)

text \<open>
  C4. In each stack, no subnet group of a network is public and private at once, and every
  resource placed outside the public subnets selects private subnets with egress in a
  network that declares them together with public subnets and NAT gateways, asks for no
  public address, and carries only security groups without a rule from an address range.
  In \<open>AWSstack\<close> these resources are the database subnet group, the database and the compute
  fleet, on the network with the subnet groups \<open>PublicSubnet\<close> and \<open>PrivateSubnet\<close> and two
  NAT gateways. The network of the logging stack declares public subnets only, and nothing
  is placed in a private subnet there.
\<close>

theorem private_subnets_isolated:
  "private_isolation_ok (AWSstack i p) \<and>
   private_isolation_ok (Ec2LoggingStack i p) \<and>
   private_resources (AWSstack i p) = [''DBSubnetGroup'', ''MyRDSInstance'', ''WordPressASG''] \<and>
   map_option (\<lambda>v. (public_names v, private_names v, natGateways v))
     (the_Vpc (AWSstack i p) ''MyAppVPC'') = Some ([''PublicSubnet''], [''PrivateSubnet''], Some 2) \<and>
   private_resources (Ec2LoggingStack i p) = [] \<and>
   map_option (\<lambda>v. (public_names v, private_names v))
     (the_Vpc (Ec2LoggingStack i p) ''AppVPC'') = Some ([''public''], [])"
  using AWSstack_private_isolation Ec2LoggingStack_private_isolation
    AWSstack_private_resources Ec2LoggingStack_private_resources
    AWSstack_subnets Ec2LoggingStack_subnets
  by blast

theorem private_subnets_isolated_witness:
  "private_resources (AWSstack ''AWSstack'' None) =
     [''DBSubnetGroup'', ''MyRDSInstance'', ''WordPressASG''] \<and>
   private_isolation_ok (AWSstack ''AWSstack'' None) \<and>
   map_option (egress_only (AWSstack ''AWSstack'' None))
     (lookup (AWSstack ''AWSstack'' None) ''MyRDSInstance'') = Some True \<and>
   map_option (no_inbound_from_internet (AWSstack ''AWSstack'' None))
     (lookup (AWSstack ''AWSstack'' None) ''WordPressASG'') = Some True"
proof -
  note t = private_subnets_isolated [of "''AWSstack''" None]
  have "case lookup (AWSstack ''AWSstack'' None) r of
          Some c \<Rightarrow> egress_only (AWSstack ''AWSstack'' None) c \<and>
                    no_inbound_from_internet (AWSstack ''AWSstack'' None) c
        | None \<Rightarrow> False"
    if "r \<in> set (private_resources (AWSstack ''AWSstack'' None))" for r
    using t that unfolding private_isolation_ok_def by blast
  from this [of "''MyRDSInstance''"] this [of "''WordPressASG''"] t show ?thesis
    by (auto split: option.splits)
qed

subsection \<open>The logging pipeline\<close>

text \<open>
  C5. The log group of the logging stack is declared with the retention \<open>ONE_WEEK\<close>, that
  is 7 days, and the subscription filter attached to that log group is declared with the
  pattern for all events, which matches every log event.
\<close>

theorem log_retention_and_filter:
  "map_option (\<lambda>g. retentionInDays (retention g))
     (the_LogGroup (Ec2LoggingStack i p) ''AppLogGroup'') = Some 7 \<and>
   map_option sf_logGroup
     (the_SubscriptionFilter (Ec2LoggingStack i p) ''LogFilter'') = Some ''AppLogGroup'' \<and>
   (\<forall>e. map_option (\<lambda>f. matches (filterPattern f) e)
     (the_SubscriptionFilter (Ec2LoggingStack i p) ''LogFilter'') = Some True)"
  by (simp add: Ec2LoggingStack_def stack_defs observation_defs)

text \<open>
  C10. In the logging stack the bootstrap script of the instance writes an agent
  configuration with two \<open>log_group_name\<close> fields, and both hold the \<open>logGroupName\<close> of the log
  group that the subscription filter is attached to.
\<close>

theorem agent_log_group_is_declared_log_group:
  "filtered_log_group (Ec2LoggingStack i p) ''LogFilter'' = Some ''/ec2/app/logs'' \<and>
   map_option agent_log_groups (userData_of (Ec2LoggingStack i p) ''AppInstance'') =
     map_option (\<lambda>n. [n, n]) (filtered_log_group (Ec2LoggingStack i p) ''LogFilter'')"
  by (simp add: Ec2LoggingStack_def stack_defs observation_defs filtered_log_group_def
      userData_of_def agent_log_groups_def field_of_def quote_def forLinux_def addCommands_def)

subsection \<open>The bootstrap script\<close>

lemma split_lines_line: "newline \<notin> set l \<Longrightarrow> split_lines l = [l]"
  by (induction l) auto

lemma split_lines_append:
  "newline \<notin> set l \<Longrightarrow> split_lines (l @ newline # r) = l # split_lines r"
  by (induction l) auto

lemma split_lines_join:
  "ls \<noteq> [] \<Longrightarrow> \<forall>l \<in> set ls. newline \<notin> set l \<Longrightarrow> split_lines (join ls) = ls"
  by (induction ls rule: join.induct) (auto simp: split_lines_line split_lines_append)

lemma fleet_commands_eval:
  "length fleet_commands = 12 \<and> (\<forall>c \<in> set fleet_commands. newline \<notin> set c) \<and>
   fleet_commands ! 0 = ''#!/bin/bash'' \<and>
   fleet_commands ! 11 = ''chmod 644 /var/www/html/index.html''"
  by (simp add: fleet_commands_def userData_of_def AWSstack_def stack_defs forLinux_def
      addCommands_def newline_def)

lemma logging_commands_eval:
  "length logging_commands = 30 \<and> (\<forall>c \<in> set logging_commands. newline \<notin> set c) \<and>
   logging_commands ! 5 = ''cat <<EOF > /opt/aws/amazon-cloudwatch-agent/bin/config.json'' \<and>
   logging_commands ! 6 = ''{'' \<and> logging_commands ! 28 = ''EOF''"
  by (simp add: logging_commands_def lib_main_def userData_of_def Ec2LoggingStack_def
      stack_defs forLinux_def addCommands_def newline_def)

lemma split_lines_render:
  assumes "\<forall>c \<in> set cs. newline \<notin> set c"
  shows "split_lines (render (addCommands forLinux cs)) = ''#!/bin/bash'' # cs"
proof -
  have "newline \<notin> set shebang"
    by (simp add: shebang_def newline_def)
  with assms have "\<forall>l \<in> set (shebang # cs). newline \<notin> set l"
    by simp
  then have "split_lines (join (shebang # cs)) = shebang # cs"
    by (intro split_lines_join) simp_all
  then show ?thesis
    by (simp add: render_def addCommands_def forLinux_def shebang_def)
qed

text \<open>
  C6, as the claim states it, fails on both command lists of the repository: the blob
  starts with the shebang line, so splitting it gives one line more than the commands that
  were given (31 lines for the 30 commands of the logging stack, 13 lines for the 12
  commands of \<open>AWSstack\<close>, whose first command is itself \<open>#!/bin/bash\<close>). A command that
  contains a line break comes back as two lines.
\<close>

theorem bootstrap_script_lines_counterexample:
  "split_lines (render (addCommands forLinux logging_commands)) \<noteq> logging_commands \<and>
   length logging_commands = 30 \<and>
   length (split_lines (render (addCommands forLinux logging_commands))) = 31 \<and>
   split_lines (render (addCommands forLinux fleet_commands)) \<noteq> fleet_commands \<and>
   length fleet_commands = 12 \<and>
   length (split_lines (render (addCommands forLinux fleet_commands))) = 13 \<and>
   split_lines (render (addCommands forLinux [''yum update -y''])) =
     [''#!/bin/bash'', ''yum update -y''] \<and>
   split_lines (render (addCommands forLinux [''echo a'' @ newline # ''echo b''])) =
     [''#!/bin/bash'', ''echo a'', ''echo b'']"
proof -
  have l: "split_lines (render (addCommands forLinux logging_commands)) =
      ''#!/bin/bash'' # logging_commands"
    using logging_commands_eval by (intro split_lines_render) blast
  have f: "split_lines (render (addCommands forLinux fleet_commands)) =
      ''#!/bin/bash'' # fleet_commands"
    using fleet_commands_eval by (intro split_lines_render) blast
  have y: "split_lines (render (addCommands forLinux [''yum update -y''])) =
      [''#!/bin/bash'', ''yum update -y'']"
    by (intro split_lines_render) (simp add: newline_def)
  have e: "split_lines (render (addCommands forLinux [''echo a'' @ newline # ''echo b''])) =
      [''#!/bin/bash'', ''echo a'', ''echo b'']"
    by (simp add: render_def addCommands_def forLinux_def shebang_def newline_def)
  from l f y e logging_commands_eval fleet_commands_eval show ?thesis
    by simp
qed

text \<open>
  C6, amended. For every list of command lines, none of which contains a line break,
  splitting the generated blob on line boundaries gives the shebang line \<open>#!/bin/bash\<close>
  followed by exactly the list: the same lines in the same order, nothing dropped and
  nothing interpreted. The lines of a file-write block are lines of the list like the
  others. Both command lists of the repository are such lists.
\<close>

theorem bootstrap_script_lines_preserved:
  assumes "\<forall>c \<in> set commands. newline \<notin> set c"
  shows "split_lines (render (addCommands forLinux commands)) = ''#!/bin/bash'' # commands"
  using assms by (rule split_lines_render)

theorem bootstrap_script_lines_preserved_witness:
  "length logging_commands = 30 \<and>
   logging_commands ! 5 = ''cat <<EOF > /opt/aws/amazon-cloudwatch-agent/bin/config.json'' \<and>
   logging_commands ! 28 = ''EOF'' \<and>
   split_lines (render (addCommands forLinux logging_commands)) =
     ''#!/bin/bash'' # logging_commands \<and>
   length fleet_commands = 12 \<and>
   split_lines (render (addCommands forLinux fleet_commands)) = ''#!/bin/bash'' # fleet_commands"
  using bootstrap_script_lines_preserved [of logging_commands]
    bootstrap_script_lines_preserved [of fleet_commands]
    logging_commands_eval fleet_commands_eval
  by blast

subsection \<open>Attaching a managed policy twice\<close>

lemma attach_policy_idem: "attach_policy m (attach_policy m c) = attach_policy m c"
  by (cases "(m, c)" rule: attach_policy.cases) auto

lemma update_step_twice:
  "(\<lambda>(i, c). if i = r then (i, f c) else (i, c)) \<circ> (\<lambda>(i, c). if i = r then (i, f c) else (i, c)) =
   (\<lambda>(i, c). if i = (r::ref) then (i, (f \<circ> f) c) else (i, c))"
  by (auto simp: fun_eq_iff)

lemma update_twice: "update r f (update r f this) = update r (f \<circ> f) this"
  by (simp add: update_def update_step_twice)

text \<open>
  C8. Attaching a managed policy to a role that already has it changes nothing: in every
  stack, two consecutive attachments of the same policy to the same role give the stack that
  one attachment gives. In the logging stack the role of the instance ends with the policy
  \<open>CloudWatchAgentServerPolicy\<close> once.
\<close>

theorem addManagedPolicy_twice:
  "addManagedPolicy r m (addManagedPolicy r m this) = addManagedPolicy r m this \<and>
   map_option managedPolicies (the_Role (Ec2LoggingStack i p) ''EC2Role'') =
     Some [fromAwsManagedPolicyName ''CloudWatchAgentServerPolicy'']"
proof -
  have "attach_policy m \<circ> attach_policy m = attach_policy m"
    by (simp add: fun_eq_iff attach_policy_idem)
  then have "addManagedPolicy r m (addManagedPolicy r m this) = addManagedPolicy r m this"
    by (simp add: addManagedPolicy_def update_twice)
  moreover have "map_option managedPolicies (the_Role (Ec2LoggingStack i p) ''EC2Role'') =
      Some [fromAwsManagedPolicyName ''CloudWatchAgentServerPolicy'']"
    by (simp add: Ec2LoggingStack_def stack_defs observation_defs)
  ultimately show ?thesis by blast
qed


end
